theory Spec2Isabelle
  imports Complex_Main "HOL-Library.Word"
begin

unbundle bit_operations_syntax

section \<open>JavaScript values used by the content script\<close>

text \<open>
  A \<open>Uint8Array\<close> is a list of 8-bit words. A JavaScript string is the list of its
  UTF-16 code units, each a natural number below 65536; \<open>length\<close> of the list is the
  string's \<open>.length\<close>. String literals of the source are written as HOL strings and
  turned into code units by \<open>lit\<close>.
\<close>

type_synonym u8 = "8 word"
type_synonym jsstring = "nat list"
type_synonym bytes = "nat list"

definition lit :: "string \<Rightarrow> jsstring" where
  "lit s = map of_char s"

text \<open>\<open>ToInt32\<close>: the operands and the result of \<open><<\<close> and \<open>|\<close> are signed 32-bit.\<close>

definition to_int32 :: "int \<Rightarrow> int" where
  "to_int32 n = (n + 2 ^ 31) mod 2 ^ 32 - 2 ^ 31"

definition js_shl :: "int \<Rightarrow> nat \<Rightarrow> int" where
  "js_shl a k = to_int32 (push_bit (k mod 32) (to_int32 a))"

definition js_or :: "int \<Rightarrow> int \<Rightarrow> int" where
  "js_or a b = to_int32 (to_int32 a OR to_int32 b)"

text \<open>\<open>a % b\<close> on numbers: the remainder takes the sign of the dividend.\<close>

definition js_rem :: "int \<Rightarrow> int \<Rightarrow> int" where
  "js_rem a b = sgn a * (\<bar>a\<bar> mod \<bar>b\<bar>)"

text \<open>\<open>String.fromCharCode(n)\<close> keeps \<open>ToUint16(n)\<close>.\<close>

definition fromCharCode :: "int \<Rightarrow> nat" where
  "fromCharCode n = nat (n mod 65536)"

section \<open>ascii85Encode\<close>

text \<open>
  The inner loop \<open>for (j = 0; j < k; j++) { enc = fromCharCode(tuple % 85 + 33) + enc;
  tuple = Math.floor(tuple / 85) }\<close>; \<open>Math.floor\<close> of the quotient is \<open>div\<close> on \<open>int\<close>.
\<close>

fun enc_loop :: "nat \<Rightarrow> int \<Rightarrow> jsstring \<Rightarrow> jsstring" where
  "enc_loop 0 tuple enc = enc"
| "enc_loop (Suc j) tuple enc =
     enc_loop j (tuple div 85) (fromCharCode (js_rem tuple 85 + 33) # enc)"

text \<open>
  One pass of the loop body over the input bytes, on the variables \<open>output\<close>,
  \<open>tuple\<close> and \<open>count\<close>, and the loop itself.
\<close>

definition ascii85_step :: "u8 \<Rightarrow> jsstring \<times> int \<times> nat \<Rightarrow> jsstring \<times> int \<times> nat" where
  "ascii85_step b st =
     (case st of (output, tuple, count) \<Rightarrow>
        let tuple' = js_or (js_shl tuple 8) (uint b); count' = count + 1
        in if count' = 4
           then (if tuple' = 0 then output @ lit ''z'' else output @ enc_loop 5 tuple' [], 0, 0)
           else (output, tuple', count'))"

fun ascii85_bytes :: "u8 list \<Rightarrow> jsstring \<times> int \<times> nat \<Rightarrow> jsstring \<times> int \<times> nat" where
  "ascii85_bytes [] st = st"
| "ascii85_bytes (b # bs) st = ascii85_bytes bs (ascii85_step b st)"

definition ascii85Encode :: "u8 list \<Rightarrow> jsstring" where
  "ascii85Encode bs =
     (case ascii85_bytes bs ([], 0, 0) of (output, tuple, count) \<Rightarrow>
        (if count > 0
         then output @ enc_loop (count + 1) (((\<lambda>t. js_shl t 8) ^^ (4 - count)) tuple) []
         else output) @ lit ''~>'')"

subsection \<open>The Ascii85 codec as the specification words it\<close>

text \<open>
  The reference encoding: a group of four bytes is a 32-bit unsigned big-endian number,
  written as five characters \<open>(value mod 85) + 33\<close>, least significant digit last; the
  value zero is the single character \<open>z\<close>; a final group of \<open>n\<close> bytes (1 to 3) is
  padded with zero bytes, written as five characters, and the first \<open>n + 1\<close> are kept; the
  end marker follows.
\<close>

definition spec_group_value :: "u8 list \<Rightarrow> nat" where
  "spec_group_value g = foldl (\<lambda>v b. v * 256 + unat b) 0 g"

fun spec_digits :: "nat \<Rightarrow> nat \<Rightarrow> jsstring" where
  "spec_digits 0 v = []"
| "spec_digits (Suc k) v = spec_digits k (v div 85) @ [v mod 85 + 33]"

fun spec_encode_groups :: "u8 list \<Rightarrow> jsstring" where
  "spec_encode_groups (a # b # c # d # rest) =
     (let v = spec_group_value [a, b, c, d]
      in (if v = 0 then lit ''z'' else spec_digits 5 v) @ spec_encode_groups rest)"
| "spec_encode_groups [] = []"
| "spec_encode_groups g =
     take (length g + 1) (spec_digits 5 (spec_group_value (g @ replicate (4 - length g) 0)))"

definition spec_ascii85_encode :: "u8 list \<Rightarrow> jsstring" where
  "spec_ascii85_encode bs = spec_encode_groups bs @ lit ''~>''"

text \<open>
  Modelled from the spec: the repository has no Ascii85 decoder. The decoding reverses the
  reference encoding: the end marker is stripped; \<open>z\<close> stands for four zero bytes; five
  characters \<open>c\<close> in the range 33 to 117 give the number with base-85 digits \<open>c - 33\<close> and
  its four big-endian bytes; a final group of \<open>k\<close> characters (2 to 4) is padded with the
  largest digit, decoded, and its first \<open>k - 1\<close> bytes are kept. Text that is not an
  encoding (a character out of range, a group worth more than 32 bits, a lone character)
  has no decoding.
\<close>

definition spec_digit_ok :: "nat \<Rightarrow> bool" where
  "spec_digit_ok c \<longleftrightarrow> 33 \<le> c \<and> c \<le> 117"

definition spec_digits_value :: "nat list \<Rightarrow> nat" where
  "spec_digits_value cs = foldl (\<lambda>v c. v * 85 + (c - 33)) 0 cs"

definition spec_value_bytes :: "nat \<Rightarrow> u8 list" where
  "spec_value_bytes v =
     [of_nat (v div 2 ^ 24), of_nat (v div 2 ^ 16), of_nat (v div 2 ^ 8), of_nat v]"

definition spec_decode_full :: "nat list \<Rightarrow> u8 list option" where
  "spec_decode_full g =
     (if list_all spec_digit_ok g \<and> spec_digits_value g < 2 ^ 32
      then Some (spec_value_bytes (spec_digits_value g)) else None)"

definition spec_decode_partial :: "nat list \<Rightarrow> u8 list option" where
  "spec_decode_partial g =
     (if 2 \<le> length g \<and> list_all spec_digit_ok g
      then map_option (take (length g - 1)) (spec_decode_full (g @ replicate (5 - length g) 117))
      else None)"

definition spec_append :: "u8 list option \<Rightarrow> u8 list option \<Rightarrow> u8 list option" where
  "spec_append a b =
     (case a of None \<Rightarrow> None | Some x \<Rightarrow> (case b of None \<Rightarrow> None | Some y \<Rightarrow> Some (x @ y)))"

fun spec_decode_groups :: "nat list \<Rightarrow> u8 list option" where
  "spec_decode_groups [] = Some []"
| "spec_decode_groups (c # cs) =
     (if c = 122 then spec_append (Some [0, 0, 0, 0]) (spec_decode_groups cs)
      else if length cs \<ge> 4
      then spec_append (spec_decode_full (c # take 4 cs)) (spec_decode_groups (drop 4 cs))
      else spec_decode_partial (c # cs))"

definition spec_ascii85_decode :: "jsstring \<Rightarrow> u8 list option" where
  "spec_ascii85_decode s =
     (if length s \<ge> 2 \<and> drop (length s - 2) s = lit ''~>''
      then spec_decode_groups (take (length s - 2) s)
      else None)"

section \<open>Numbers and strings in template literals\<close>

text \<open>
  The decimal digits of a natural number, as \<open>Number.prototype.toString\<close> writes an
  integer, and the string of an integer, with its sign.
\<close>

fun nat_digits :: "nat \<Rightarrow> jsstring" where
  "nat_digits n = (if n < 10 then [48 + n] else nat_digits (n div 10) @ [48 + n mod 10])"

declare nat_digits.simps [simp del]

definition int_string :: "int \<Rightarrow> jsstring" where
  "int_string n = (if n < 0 then 45 # nat_digits (nat (- n)) else nat_digits (nat n))"

text \<open>\<open>s.padStart(10, '0')\<close>: zeros in front up to ten code units, never a cut.\<close>

definition padStart10 :: "jsstring \<Rightarrow> jsstring" where
  "padStart10 s = replicate (10 - length s) 48 @ s"

text \<open>\<open>xs.join(sep)\<close>.\<close>

fun js_join :: "jsstring \<Rightarrow> jsstring list \<Rightarrow> jsstring" where
  "js_join sep [] = []"
| "js_join sep [x] = x"
| "js_join sep (x # y # ys) = x @ sep @ js_join sep (y # ys)"

text \<open>\<open>Math.round\<close>: the nearest integer, a half rounded up.\<close>

definition js_round :: "rat \<Rightarrow> int" where
  "js_round x = \<lfloor>x + 1 / 2\<rfloor>"

section \<open>encodePdfString\<close>

text \<open>
  \<open>TextEncoder.encode\<close>: the UTF-8 bytes of a string. A code unit below 128 is one
  byte, one below 2048 two bytes, a surrogate pair four bytes, a surrogate without its
  partner the three bytes of U+FFFD, any other code unit three bytes.
\<close>

definition utf8_pair :: "nat \<Rightarrow> nat \<Rightarrow> bytes" where
  "utf8_pair hi lo =
     (let cp = 65536 + (hi - 55296) * 1024 + (lo - 56320)
      in [240 + cp div 262144, 128 + cp div 4096 mod 64, 128 + cp div 64 mod 64, 128 + cp mod 64])"

fun utf8_encode :: "jsstring \<Rightarrow> bytes" where
  "utf8_encode [] = []"
| "utf8_encode (c # cs) =
     (if c < 128 then c # utf8_encode cs
      else if c < 2048 then [192 + c div 64, 128 + c mod 64] @ utf8_encode cs
      else if 55296 \<le> c \<and> c < 56320 then
        (case cs of
           [] \<Rightarrow> [239, 191, 189]
         | d # ds \<Rightarrow>
             if 56320 \<le> d \<and> d < 57344 then utf8_pair c d @ utf8_encode ds
             else [239, 191, 189] @ utf8_encode cs)
      else if 56320 \<le> c \<and> c < 57344 then [239, 191, 189] @ utf8_encode cs
      else [224 + c div 4096, 128 + c div 64 mod 64, 128 + c mod 64] @ utf8_encode cs)"

definition encodePdfString :: "jsstring \<Rightarrow> bytes" where
  "encodePdfString s = utf8_encode s"

section \<open>MinimalPdf\<close>

record pdf_object =
  obj_id :: nat
  obj_str :: jsstring

record MinimalPdf =
  objects :: "pdf_object list"
  pages :: "nat list"
  nextId :: nat
  catalogId :: nat
  pagesId :: nat

definition nextObjectId :: "MinimalPdf \<Rightarrow> nat \<times> MinimalPdf" where
  "nextObjectId pdf = (nextId pdf, pdf\<lparr>nextId := nextId pdf + 1\<rparr>)"

text \<open>The constructor: two identifiers are taken before any object exists.\<close>

definition MinimalPdf_new :: MinimalPdf where
  "MinimalPdf_new =
     (case nextObjectId \<lparr>objects = [], pages = [], nextId = 1, catalogId = 0, pagesId = 0\<rparr> of
        (c, p1) \<Rightarrow>
          (case nextObjectId (p1\<lparr>catalogId := c\<rparr>) of
             (g, p2) \<Rightarrow> p2\<lparr>pagesId := g\<rparr>))"

definition addObject :: "jsstring \<Rightarrow> MinimalPdf \<Rightarrow> nat \<times> MinimalPdf" where
  "addObject s pdf =
     (case nextObjectId pdf of
        (i, pdf') \<Rightarrow> (i, pdf'\<lparr>objects := objects pdf' @ [\<lparr>obj_id = i, obj_str = s\<rparr>]\<rparr>))"

definition jpeg_dict :: "int \<Rightarrow> int \<Rightarrow> jsstring \<Rightarrow> jsstring" where
  "jpeg_dict w h ascii85 =
     lit ''<< /Type /XObject /Subtype /Image /Width '' @ int_string w
     @ lit '' /Height '' @ int_string h
     @ lit '' /ColorSpace /DeviceRGB /BitsPerComponent 8 /Filter [/ASCII85Decode /DCTDecode] /Length ''
     @ nat_digits (length ascii85) @ lit '' >>''"

definition addJpegImage :: "u8 list \<Rightarrow> int \<Rightarrow> int \<Rightarrow> MinimalPdf \<Rightarrow> nat \<times> MinimalPdf" where
  "addJpegImage jpegBytes w h pdf =
     (let ascii85 = ascii85Encode jpegBytes
      in addObject (jpeg_dict w h ascii85 @ lit ''\<newline>stream\<newline>'' @ ascii85
                    @ lit ''\<newline>endstream'') pdf)"

definition page_content :: "int \<Rightarrow> int \<Rightarrow> jsstring" where
  "page_content w h =
     lit ''q\<newline>'' @ int_string w @ lit '' 0 0 '' @ int_string h
     @ lit '' 0 0 cm\<newline>/Im1 Do\<newline>Q\<newline>''"

definition contents_str :: "int \<Rightarrow> int \<Rightarrow> jsstring" where
  "contents_str w h =
     lit ''<< /Length '' @ nat_digits (length (page_content w h)) @ lit '' >>\<newline>stream\<newline>''
     @ page_content w h @ lit ''\<newline>endstream''"

definition resources_str :: "nat \<Rightarrow> jsstring" where
  "resources_str imageObjectId =
     lit ''<< /XObject << /Im1 '' @ nat_digits imageObjectId
     @ lit '' 0 R >> /ProcSet [/PDF /ImageB /ImageC /ImageI] >>''"

definition page_str :: "nat \<Rightarrow> int \<Rightarrow> int \<Rightarrow> nat \<Rightarrow> nat \<Rightarrow> jsstring" where
  "page_str parent w h contentsId resourcesId =
     lit ''<< /Type /Page /Parent '' @ nat_digits parent
     @ lit '' 0 R /MediaBox [0 0 '' @ int_string w @ lit '' '' @ int_string h
     @ lit ''] /Contents '' @ nat_digits contentsId
     @ lit '' 0 R /Resources '' @ nat_digits resourcesId @ lit '' 0 R >>''"

definition addPageWithImage :: "nat \<Rightarrow> int \<Rightarrow> int \<Rightarrow> MinimalPdf \<Rightarrow> MinimalPdf" where
  "addPageWithImage imageObjectId w h pdf =
     (case addObject (contents_str w h) pdf of
        (contentsId, pdf1) \<Rightarrow>
          (case addObject (resources_str imageObjectId) pdf1 of
             (resourcesId, pdf2) \<Rightarrow>
               (case addObject (page_str (pagesId pdf2) w h contentsId resourcesId) pdf2 of
                  (pageId, pdf3) \<Rightarrow> pdf3\<lparr>pages := pages pdf3 @ [pageId]\<rparr>)))"

subsection \<open>serialize\<close>

text \<open>
  The writer of \<open>serialize\<close>: the list \<open>chunks\<close> and the running \<open>offset\<close>;
  \<open>pdf_write\<close>, the closure \<open>write\<close> of the source, encodes a string, appends the
  bytes as a chunk and advances the offset by the number of bytes.
\<close>

record writer =
  chunks :: "bytes list"
  offset :: nat

definition pdf_write :: "jsstring \<Rightarrow> writer \<Rightarrow> writer" where
  "pdf_write s w =
     (let enc = encodePdfString s
      in \<lparr>chunks = chunks w @ [enc], offset = offset w + length enc\<rparr>)"

definition pagesObj :: "MinimalPdf \<Rightarrow> jsstring" where
  "pagesObj pdf =
     lit ''<< /Type /Pages /Kids [ ''
     @ js_join (lit '' '') (map (\<lambda>i. nat_digits i @ lit '' 0 R'') (pages pdf))
     @ lit '' ] /Count '' @ nat_digits (length (pages pdf)) @ lit '' >>''"

definition catalogObj :: "MinimalPdf \<Rightarrow> jsstring" where
  "catalogObj pdf = lit ''<< /Type /Catalog /Pages '' @ nat_digits (pagesId pdf) @ lit '' 0 R >>''"

text \<open>The two \<open>unshift\<close> calls: the catalog first, the page tree second, then the rest.\<close>

definition unshift_roots :: "MinimalPdf \<Rightarrow> MinimalPdf" where
  "unshift_roots pdf =
     pdf\<lparr>objects := \<lparr>obj_id = catalogId pdf, obj_str = catalogObj pdf\<rparr>
                      # \<lparr>obj_id = pagesId pdf, obj_str = pagesObj pdf\<rparr> # objects pdf\<rparr>"

definition obj_header :: "pdf_object \<Rightarrow> jsstring" where
  "obj_header obj = nat_digits (obj_id obj) @ lit '' 0 obj\<newline>''"

definition obj_text :: "pdf_object \<Rightarrow> jsstring" where
  "obj_text obj = obj_header obj @ obj_str obj @ lit ''\<newline>endobj\<newline>''"

text \<open>The loop over the objects: the offset is pushed to \<open>positions\<close>, then the object is written.\<close>

fun write_objects :: "pdf_object list \<Rightarrow> writer \<times> nat list \<Rightarrow> writer \<times> nat list" where
  "write_objects [] st = st"
| "write_objects (obj # objs) st =
     write_objects objs (pdf_write (obj_text obj) (fst st), snd st @ [offset (fst st)])"

definition xref_entry :: "nat \<Rightarrow> jsstring" where
  "xref_entry pos = padStart10 (nat_digits pos) @ lit '' 00000 n \<newline>''"

fun write_entries :: "nat list \<Rightarrow> writer \<Rightarrow> writer" where
  "write_entries [] w = w"
| "write_entries (pos # ps) w = write_entries ps (pdf_write (xref_entry pos) w)"

definition xref_head :: "MinimalPdf \<Rightarrow> jsstring" where
  "xref_head pdf = lit ''xref\<newline>0 '' @ nat_digits (length (objects pdf) + 1) @ lit ''\<newline>''"

definition trailer_text :: "MinimalPdf \<Rightarrow> nat \<Rightarrow> jsstring" where
  "trailer_text pdf xrefStart =
     lit ''trailer\<newline><< /Size '' @ nat_digits (length (objects pdf) + 1)
     @ lit '' /Root '' @ nat_digits (catalogId pdf)
     @ lit '' 0 R >>\<newline>startxref\<newline>'' @ nat_digits xrefStart @ lit ''\<newline>%%EOF''"

text \<open>
  The state of \<open>serialize\<close> after the objects are written: the document with the two
  root objects in front, the writer and the recorded positions.
\<close>

definition serialize_objects :: "MinimalPdf \<Rightarrow> writer \<times> nat list" where
  "serialize_objects pdf =
     write_objects (objects (unshift_roots pdf))
       (pdf_write (lit ''%PDF-1.4\<newline>'') \<lparr>chunks = [], offset = 0\<rparr>, [])"

definition positions :: "MinimalPdf \<Rightarrow> nat list" where
  "positions pdf = snd (serialize_objects pdf)"

definition xrefStart :: "MinimalPdf \<Rightarrow> nat" where
  "xrefStart pdf = offset (fst (serialize_objects pdf))"

definition serialize_writer :: "MinimalPdf \<Rightarrow> writer" where
  "serialize_writer pdf =
     (let pdf' = unshift_roots pdf
      in pdf_write (trailer_text pdf' (xrefStart pdf))
           (write_entries (positions pdf)
              (pdf_write (lit ''0000000000 65535 f \<newline>'')
                 (pdf_write (xref_head pdf') (fst (serialize_objects pdf))))))"

text \<open>
  \<open>serialize\<close> returns the buffer, the chunks laid end to end, and leaves the document
  with the two root objects in front of its object list.
\<close>

definition serialize :: "MinimalPdf \<Rightarrow> bytes \<times> MinimalPdf" where
  "serialize pdf = (concat (chunks (serialize_writer pdf)), unshift_roots pdf)"

section \<open>Images, slices and the canvas\<close>

text \<open>
  A captured data URL is represented by what \<open>createImage\<close> makes of it: a loaded
  image with its natural size, or a failure of the load. Errors of the script are values.
\<close>

record image =
  naturalWidth :: int
  naturalHeight :: int

datatype dataurl = PngUrl image | BadUrl

datatype js_error = ImageLoadError | TypeError | IndexSizeError | EncodeError

definition createImage :: "dataurl \<Rightarrow> js_error + image" where
  "createImage u = (case u of PngUrl img \<Rightarrow> Inr img | BadUrl \<Rightarrow> Inl ImageLoadError)"

record slice =
  slice_y :: int
  slice_url :: dataurl

text \<open>
  A canvas is its size and the \<open>drawImage\<close> calls made on it, in order, over the white
  fill. A call copies \<open>d_sh\<close> rows of tile \<open>d_tile\<close>, from source row \<open>d_sy\<close>, to
  the rows from \<open>d_dy\<close> on.
\<close>

record draw =
  d_tile :: nat
  d_image :: image
  d_sx :: int
  d_sy :: int
  d_sw :: int
  d_sh :: int
  d_dx :: int
  d_dy :: int
  d_dw :: int
  d_dh :: int

record canvas =
  c_width :: int
  c_height :: int
  c_draws :: "draw list"

datatype row = White | TileRow nat int

text \<open>
  What a row of the canvas shows: a draw call covers row \<open>r\<close> when \<open>r\<close> is in its
  destination rows and the source row exists in the image; later calls overwrite earlier
  ones; rows outside the canvas do not exist.
\<close>

definition covers :: "draw \<Rightarrow> int \<Rightarrow> bool" where
  "covers d r \<longleftrightarrow>
     d_dy d \<le> r \<and> r < d_dy d + d_dh d \<and> 0 < d_sw d
     \<and> 0 \<le> d_sy d + (r - d_dy d) \<and> d_sy d + (r - d_dy d) < naturalHeight (d_image d)"

definition paint :: "int \<Rightarrow> row \<Rightarrow> draw \<Rightarrow> row" where
  "paint r cur d = (if covers d r then TileRow (d_tile d) (d_sy d + (r - d_dy d)) else cur)"

definition canvas_row :: "canvas \<Rightarrow> int \<Rightarrow> row option" where
  "canvas_row c r =
     (if 0 \<le> r \<and> r < c_height c then Some (foldl (paint r) White (c_draws c)) else None)"

section \<open>stitchImages\<close>

definition toPixels :: "rat \<Rightarrow> int \<Rightarrow> int" where
  "toPixels dpr css = js_round (of_int css * dpr)"

text \<open>\<open>Promise.all\<close> over \<open>createImage\<close>: all the images, or the failure of a load.\<close>

fun load_images :: "slice list \<Rightarrow> js_error + image list" where
  "load_images [] = Inr []"
| "load_images (s # ss) =
     (case createImage (slice_url s) of
        Inl e \<Rightarrow> Inl e
      | Inr img \<Rightarrow> (case load_images ss of Inl e \<Rightarrow> Inl e | Inr imgs \<Rightarrow> Inr (img # imgs)))"

text \<open>The height \<open>srcH\<close> of the source region of a slice drawn at \<open>destY\<close>.\<close>

definition source_height :: "int \<Rightarrow> int \<Rightarrow> int \<Rightarrow> int" where
  "source_height pixelViewportHeight totalPixelHeight destY =
     (let remaining = totalPixelHeight - destY
      in if remaining < pixelViewportHeight then max 0 remaining else pixelViewportHeight)"

text \<open>The body of the loop over the images, for the image at index \<open>i\<close>.\<close>

definition draw_slice :: "rat \<Rightarrow> int \<Rightarrow> int \<Rightarrow> int \<Rightarrow> nat \<Rightarrow> slice \<Rightarrow> image \<Rightarrow> canvas \<Rightarrow> canvas" where
  "draw_slice dpr pixelWidth pixelViewportHeight totalPixelHeight i s img c =
     (let destY = toPixels dpr (slice_y s);
          srcH = source_height pixelViewportHeight totalPixelHeight destY
      in if srcH > 0
         then c\<lparr>c_draws := c_draws c @
                 [\<lparr>d_tile = i, d_image = img, d_sx = 0, d_sy = 0, d_sw = pixelWidth, d_sh = srcH,
                   d_dx = 0, d_dy = destY, d_dw = pixelWidth, d_dh = srcH\<rparr>]\<rparr>
         else c)"

fun draw_loop :: "rat \<Rightarrow> int \<Rightarrow> int \<Rightarrow> int \<Rightarrow> nat \<Rightarrow> (slice \<times> image) list \<Rightarrow> canvas \<Rightarrow> canvas" where
  "draw_loop dpr pw pvh tph i [] c = c"
| "draw_loop dpr pw pvh tph i (p # ps) c =
     draw_loop dpr pw pvh tph (Suc i) ps (draw_slice dpr pw pvh tph i (fst p) (snd p) c)"

record stitched =
  s_image :: canvas
  pixelWidth :: int
  pixelHeight :: int

text \<open>
  \<open>stitchImages\<close>. With no slice, \<open>images[0]\<close> is undefined and reading its width
  throws; \<open>getImageData\<close> throws when the width or the height it is asked for is zero.
\<close>

definition stitchImages :: "slice list \<Rightarrow> rat \<Rightarrow> int \<Rightarrow> int \<Rightarrow> js_error + stitched" where
  "stitchImages slices dpr cssWidth cssTotalHeight =
     (case load_images slices of
        Inl e \<Rightarrow> Inl e
      | Inr [] \<Rightarrow> Inl TypeError
      | Inr (img0 # imgs) \<Rightarrow>
          (let pw = naturalWidth img0;
               pvh = naturalHeight img0;
               tph = toPixels dpr cssTotalHeight;
               c = draw_loop dpr pw pvh tph 0 (zip slices (img0 # imgs))
                     \<lparr>c_width = pw, c_height = tph, c_draws = []\<rparr>
           in if min 100 pw = 0 \<or> min 100 tph = 0 then Inl IndexSizeError
              else Inr \<lparr>s_image = c, pixelWidth = pw, pixelHeight = tph\<rparr>))"

section \<open>createPdfFromCanvas and renderPdfFromImage\<close>

text \<open>
  The image codec of the browser is a parameter: \<open>toJpeg\<close> gives the JPEG bytes of a
  canvas at a quality, or fails; \<open>toPng\<close> gives its PNG bytes.
\<close>

record codec =
  toJpeg :: "canvas \<Rightarrow> rat \<Rightarrow> u8 list option"
  toPng :: "canvas \<Rightarrow> u8 list"

text \<open>
  \<open>Math.min(14400 / pixelWidth, 14400 / pixelHeight)\<close>. A quotient by zero is
  \<open>Infinity\<close>, which \<open>Math.min\<close> never returns beside a finite quotient. Numbers are
  rational here; the rounding of double arithmetic is outside the model.
\<close>

definition pdf_scale :: "int \<Rightarrow> int \<Rightarrow> rat" where
  "pdf_scale pw ph =
     (if pw = 0 then 14400 / of_int ph
      else if ph = 0 then 14400 / of_int pw
      else min (14400 / of_int pw) (14400 / of_int ph))"

definition pdf_dimensions :: "int \<Rightarrow> int \<Rightarrow> int \<times> int" where
  "pdf_dimensions pw ph =
     (if pw > 14400 \<or> ph > 14400
      then (js_round (of_int pw * pdf_scale pw ph), js_round (of_int ph * pdf_scale pw ph))
      else (pw, ph))"

text \<open>The document \<open>createPdfFromCanvas\<close> builds before it serializes it.\<close>

definition pdf_document :: "u8 list \<Rightarrow> int \<Rightarrow> int \<Rightarrow> MinimalPdf" where
  "pdf_document jpegData pw ph =
     (case pdf_dimensions pw ph of
        (pdfWidth, pdfHeight) \<Rightarrow>
          (case addJpegImage jpegData pw ph MinimalPdf_new of
             (imageObjectId, pdf) \<Rightarrow> addPageWithImage imageObjectId pdfWidth pdfHeight pdf))"

definition createPdfFromCanvas :: "codec \<Rightarrow> canvas \<Rightarrow> int \<Rightarrow> int \<Rightarrow> rat \<Rightarrow> js_error + bytes" where
  "createPdfFromCanvas env c pw ph quality =
     (case toJpeg env c quality of
        None \<Rightarrow> Inl EncodeError
      | Some jpegData \<Rightarrow> Inr (fst (serialize (pdf_document jpegData pw ph))))"

definition testCanvas :: canvas where
  "testCanvas = \<lparr>c_width = 200, c_height = 200, c_draws = []\<rparr>"

definition renderPdfFromImage :: "codec \<Rightarrow> canvas \<Rightarrow> int \<Rightarrow> int \<Rightarrow> js_error + bytes" where
  "renderPdfFromImage env c pw ph =
     (case createPdfFromCanvas env c pw ph (92 / 100) of
        Inr b \<Rightarrow> Inr b
      | Inl e \<Rightarrow>
          (case createPdfFromCanvas env c pw ph (1 / 2) of
             Inr b \<Rightarrow> Inr b
           | Inl e2 \<Rightarrow> createPdfFromCanvas env testCanvas 200 200 (8 / 10)))"

section \<open>The content script: the listener and captureFullPage\<close>

text \<open>
  The page as \<open>getDocumentMetrics\<close> reads it: \<open>p_scrollHeight\<close> is the largest of the
  six heights of \<open>body\<close> and \<open>documentElement\<close>; a device pixel ratio of zero stands
  for a falsy \<open>window.devicePixelRatio\<close>.
\<close>

record page =
  p_scrollHeight :: int
  p_innerHeight :: int
  p_innerWidth :: int
  p_devicePixelRatio :: rat

record metrics =
  totalHeight :: int
  viewportHeight :: int
  width :: int
  devicePixelRatio :: rat

definition getDocumentMetrics :: "page \<Rightarrow> metrics" where
  "getDocumentMetrics p =
     \<lparr>totalHeight = p_scrollHeight p, viewportHeight = p_innerHeight p, width = p_innerWidth p,
      devicePixelRatio = (if p_devicePixelRatio p = 0 then 1 else p_devicePixelRatio p)\<rparr>"

record env =
  env_page :: page
  env_codec :: codec

text \<open>
  The script is asynchronous: a run of the listener is suspended at
  \<open>await browser.runtime.sendMessage({ type: 'capture-viewport' })\<close> and resumed by the
  reply, and other messages may be delivered in between. The model is a machine whose
  events are the delivery of a message to the listener and the settlement of the pending
  capture request: a data URL, an empty (falsy) result, or a rejection, which \<open>await\<close>
  throws. The rest of a run, after the last reply, is one step.

  A \<open>frame\<close> holds the variables of a suspended \<open>captureFullPage\<close>. The state of the
  content script is the guard \<open>isRunning\<close>, the scroll position of the window, the
  suspended run if there is one, and the messages sent to the background script so far:
  a capture request, noted with the vertical scroll position at which it is made, or a
  file to save.
\<close>

datatype message = StartCapture | OtherMessage

datatype response = Tile dataurl | Empty | Rejected

datatype event = Message message | Reply response

record frame =
  f_meta :: metrics
  f_originalScrollX :: int
  f_originalScrollY :: int
  f_currentY :: int
  f_slices :: "slice list"

datatype filekind = PdfFile | PngFile

datatype outbound = CaptureViewport int | SaveFile filekind bytes

record content_state =
  isRunning :: bool
  scrollX :: int
  scrollY :: int
  pending :: "frame option"
  sent :: "outbound list"

definition scrollTo :: "int \<Rightarrow> int \<Rightarrow> content_state \<Rightarrow> content_state" where
  "scrollTo x y st = st\<lparr>scrollX := x, scrollY := y\<rparr>"

text \<open>The \<open>finally\<close> block of the listener.\<close>

definition finally_block :: "content_state \<Rightarrow> content_state" where
  "finally_block st = st\<lparr>isRunning := False, pending := None\<rparr>"

text \<open>
  The \<open>try\<close> block of the listener from the return of \<open>captureFullPage\<close> on: nothing
  more when there is no slice; otherwise the slices are stitched, the stitched canvas is
  sent as a PNG file, and the PDF is rendered and sent. An error thrown on the way is
  caught and logged.
\<close>

definition after_capture :: "env \<Rightarrow> metrics \<Rightarrow> slice list \<Rightarrow> content_state \<Rightarrow> content_state" where
  "after_capture e meta slices st =
     (if slices = [] then st
      else
        (case stitchImages slices (devicePixelRatio meta) (width meta) (totalHeight meta) of
           Inl err \<Rightarrow> st
         | Inr stitched \<Rightarrow>
             (let st1 = st\<lparr>sent := sent st
                          @ [SaveFile PngFile (map unat (toPng (env_codec e) (s_image stitched)))]\<rparr>
              in case renderPdfFromImage (env_codec e) (s_image stitched)
                        (pixelWidth stitched) (pixelHeight stitched) of
                   Inl err \<Rightarrow> st1
                 | Inr pdfBytes \<Rightarrow> st1\<lparr>sent := sent st1 @ [SaveFile PdfFile pdfBytes]\<rparr>)))"

text \<open>
  The end of \<open>captureFullPage\<close>, after the loop: the scroll position is restored and
  the slices are returned to the listener, which runs to its \<open>finally\<close> block.
\<close>

definition captureFullPage_return :: "env \<Rightarrow> frame \<Rightarrow> content_state \<Rightarrow> content_state" where
  "captureFullPage_return e fr st =
     finally_block
       (after_capture e (f_meta fr) (f_slices fr)
          (scrollTo (f_originalScrollX fr) (f_originalScrollY fr) st))"

text \<open>
  The head of the loop \<open>while (currentY <= maxScrollY + 1)\<close>: inside, the window is
  scrolled to \<open>currentY\<close> and the capture request is sent, and the run is suspended.
\<close>

definition maxScrollY :: "metrics \<Rightarrow> int" where
  "maxScrollY meta = totalHeight meta - viewportHeight meta"

definition capture_loop :: "env \<Rightarrow> frame \<Rightarrow> content_state \<Rightarrow> content_state" where
  "capture_loop e fr st =
     (if f_currentY fr \<le> maxScrollY (f_meta fr) + 1
      then (scrollTo 0 (f_currentY fr) st)
             \<lparr>pending := Some fr, sent := sent st @ [CaptureViewport (f_currentY fr)]\<rparr>
      else captureFullPage_return e fr st)"

text \<open>
  The reply to the pending request: a rejection is thrown out of \<open>captureFullPage\<close>,
  caught by the listener, and the listener ends; an empty result breaks out of the loop;
  a data URL is pushed with the current offset, and the offset advances by the height of
  the viewport.
\<close>

definition capture_reply :: "env \<Rightarrow> frame \<Rightarrow> response \<Rightarrow> content_state \<Rightarrow> content_state" where
  "capture_reply e fr r st =
     (case r of
        Rejected \<Rightarrow> finally_block st
      | Empty \<Rightarrow> captureFullPage_return e fr st
      | Tile u \<Rightarrow>
          capture_loop e
            (fr\<lparr>f_slices := f_slices fr @ [\<lparr>slice_y = f_currentY fr, slice_url = u\<rparr>],
                f_currentY := f_currentY fr + viewportHeight (f_meta fr)\<rparr>) st)"

text \<open>The beginning of \<open>captureFullPage\<close>.\<close>

definition captureFullPage :: "env \<Rightarrow> metrics \<Rightarrow> content_state \<Rightarrow> content_state" where
  "captureFullPage e meta st =
     capture_loop e
       \<lparr>f_meta = meta, f_originalScrollX = scrollX st, f_originalScrollY = scrollY st,
        f_currentY = 0, f_slices = []\<rparr> st"

text \<open>The listener, from the delivery of a message to its first suspension or its end.\<close>

definition onMessage :: "env \<Rightarrow> message \<Rightarrow> content_state \<Rightarrow> content_state" where
  "onMessage e m st =
     (if m \<noteq> StartCapture then st
      else if isRunning st then st
      else captureFullPage e (getDocumentMetrics (env_page e)) (st\<lparr>isRunning := True\<rparr>))"

fun step :: "env \<Rightarrow> content_state \<Rightarrow> event \<Rightarrow> content_state" where
  "step e st (Message m) = onMessage e m st"
| "step e st (Reply r) =
     (case pending st of None \<Rightarrow> st | Some fr \<Rightarrow> capture_reply e fr r (st\<lparr>pending := None\<rparr>))"

definition run :: "env \<Rightarrow> content_state \<Rightarrow> event list \<Rightarrow> content_state" where
  "run e st evs = foldl (step e) st evs"

text \<open>The content script as it is loaded, with the window scrolled to a position.\<close>

definition idle :: "int \<Rightarrow> int \<Rightarrow> content_state" where
  "idle x y = \<lparr>isRunning = False, scrollX = x, scrollY = y, pending = None, sent = []\<rparr>"

text \<open>The offsets of the capture requests made so far.\<close>

fun requested :: "outbound list \<Rightarrow> int list" where
  "requested [] = []"
| "requested (CaptureViewport off # ms) = off # requested ms"
| "requested (SaveFile k b # ms) = requested ms"

section \<open>Documents built by the operations of MinimalPdf\<close>

datatype pdf_op =
  AddObject jsstring
| AddJpegImage "u8 list" int int
| AddPageWithImage nat int int

fun apply_op :: "MinimalPdf \<Rightarrow> pdf_op \<Rightarrow> MinimalPdf" where
  "apply_op pdf (AddObject s) = snd (addObject s pdf)"
| "apply_op pdf (AddJpegImage b w h) = snd (addJpegImage b w h pdf)"
| "apply_op pdf (AddPageWithImage i w h) = addPageWithImage i w h pdf"

definition build :: "pdf_op list \<Rightarrow> MinimalPdf" where
  "build ops = foldl apply_op MinimalPdf_new ops"

section \<open>Example inputs\<close>

text \<open>
  A page 1801 units tall in a viewport 800 units tall and 1280 wide, at device pixel
  ratio 1; a tile of the size of that viewport; a codec whose files are empty.
\<close>

definition page1801 :: page where
  "page1801 = \<lparr>p_scrollHeight = 1801, p_innerHeight = 800, p_innerWidth = 1280,
                p_devicePixelRatio = 1\<rparr>"

definition image800 :: image where
  "image800 = \<lparr>naturalWidth = 1280, naturalHeight = 800\<rparr>"

definition tile800 :: dataurl where
  "tile800 = PngUrl image800"

definition blank_codec :: codec where
  "blank_codec = \<lparr>toJpeg = (\<lambda>c q. Some []), toPng = (\<lambda>c. [])\<rparr>"

definition env1801 :: env where
  "env1801 = \<lparr>env_page = page1801, env_codec = blank_codec\<rparr>"

text \<open>The draw call that copies \<open>h\<close> rows of tile \<open>i\<close>, an image \<open>img\<close>, to row \<open>y\<close>.\<close>

definition tile_draw :: "nat \<Rightarrow> image \<Rightarrow> int \<Rightarrow> int \<Rightarrow> draw" where
  "tile_draw i img y h =
     \<lparr>d_tile = i, d_image = img, d_sx = 0, d_sy = 0, d_sw = naturalWidth img, d_sh = h,
      d_dx = 0, d_dy = y, d_dw = naturalWidth img, d_dh = h\<rparr>"

section \<open>Rules for evaluating the definitions on numerals\<close>

lemma enc_loop_numeral:
  "enc_loop (numeral k) tuple enc =
     enc_loop (pred_numeral k) (tuple div 85) (fromCharCode (js_rem tuple 85 + 33) # enc)"
  by (simp only: numeral_eq_Suc [of k] enc_loop.simps)

lemma spec_digits_numeral:
  "spec_digits (numeral k) v = spec_digits (pred_numeral k) (v div 85) @ [v mod 85 + 33]"
  by (simp only: numeral_eq_Suc [of k] spec_digits.simps)

lemma replicate_numeral_unfold: "replicate (numeral k) x = x # replicate (pred_numeral k) x"
  by (simp only: numeral_eq_Suc [of k] replicate.simps)

lemma funpow_numeral_unfold: "(f ^^ numeral k) x = f ((f ^^ pred_numeral k) x)"
  by (simp only: numeral_eq_Suc [of k] funpow.simps o_apply)

lemma floor_numeral_quotient: "\<lfloor>numeral a / numeral b :: rat\<rfloor> = numeral a div numeral b"
  using floor_divide_of_int_eq [of "numeral a" "numeral b", where ?'a = rat] by simp

lemma floor_neg_numeral_quotient:
  "\<lfloor>- numeral a / numeral b :: rat\<rfloor> = - numeral a div numeral b"
  using floor_divide_of_int_eq [of "- numeral a" "numeral b", where ?'a = rat] by simp

lemma floor_one_quotient: "\<lfloor>1 / numeral b :: rat\<rfloor> = 1 div numeral b"
  using floor_divide_of_int_eq [of 1 "numeral b", where ?'a = rat] by simp

lemmas ascii85_eval =
  enc_loop_numeral spec_digits_numeral replicate_numeral_unfold funpow_numeral_unfold
  js_or_def js_shl_def to_int32_def push_bit_eq_mult js_rem_def fromCharCode_def lit_def
  ascii85_step_def ascii85Encode_def
  spec_group_value_def spec_digits_value_def spec_value_bytes_def spec_digit_ok_def
  spec_decode_full_def spec_decode_partial_def spec_append_def
  spec_ascii85_encode_def spec_ascii85_decode_def

lemmas round_eval =
  js_round_def floor_numeral_quotient floor_neg_numeral_quotient floor_one_quotient

lemmas script_defs =
  onMessage_def captureFullPage_def capture_loop_def capture_reply_def
  captureFullPage_return_def after_capture_def finally_block_def scrollTo_def run_def idle_def
  getDocumentMetrics_def maxScrollY_def

lemmas stitch_defs =
  stitchImages_def createImage_def draw_slice_def source_height_def toPixels_def

lemmas example_defs =
  page1801_def image800_def tile800_def blank_codec_def env1801_def tile_draw_def

lemmas build_eval = build_def addObject_def addJpegImage_def addPageWithImage_def

lemmas pdf_eval =
  serialize_def serialize_writer_def serialize_objects_def positions_def xrefStart_def
  unshift_roots_def MinimalPdf_new_def nextObjectId_def pdf_write_def encodePdfString_def
  obj_text_def obj_header_def catalogObj_def pagesObj_def xref_head_def xref_entry_def
  trailer_text_def padStart10_def nat_digits.simps lit_def replicate_numeral_unfold Let_def

section \<open>Results about the Ascii85 encoder\<close>

text \<open>
  C1 (round trip through the decoding of the specification). The encoder keeps the last
  \<open>n + 1\<close> base-85 digits of a final partial group instead of the first \<open>n + 1\<close>: the
  one-byte input \<open>01\<close> is written as the characters 42, 34 and the end marker, which
  decode to the byte \<open>1C\<close>, while the reference encoding of that byte decodes to it. The
  empty input is written as the end marker alone.
\<close>

theorem ascii85_roundtrip_fails_on_partial_group:
  "ascii85Encode [1] = [42, 34, 126, 62]
   \<and> spec_ascii85_decode (ascii85Encode [1]) = Some [28]
   \<and> spec_ascii85_decode (spec_ascii85_encode [1]) = Some [1]
   \<and> ascii85Encode [] = lit ''~>''"
  by (simp add: ascii85_eval)

text \<open>
  C2 (agreement with the reference encoding). The shift \<open>tuple << 8\<close> is a signed 32-bit
  operation, so a group whose first byte is 128 or more is a negative number, and its
  remainders modulo 85 are negative: the first four bytes of a JPEG file,
  \<open>FF D8 FF E0\<close>, are written as the code units 32, 28, 19, 65504, 65498, where the
  reference encoding has five characters between 33 and 117. On the one-byte input
  \<open>01\<close> the two encodings differ as well.
\<close>

theorem ascii85Encode_differs_from_reference:
  "ascii85Encode [255, 216, 255, 224] = [32, 28, 19, 65504, 65498, 126, 62]
   \<and> spec_ascii85_encode [255, 216, 255, 224] = [115, 52, 73, 65, 48, 126, 62]
   \<and> ascii85Encode [1] \<noteq> spec_ascii85_encode [1]"
  by (simp add: ascii85_eval)

section \<open>Results about the document writer\<close>

subsection \<open>The bytes of a string and the digits of a number\<close>

lemma utf8_encode_ascii: "\<forall>c\<in>set a. c < 128 \<Longrightarrow> utf8_encode (a @ b) = a @ utf8_encode b"
  by (induction a) simp_all

lemma nat_digits_range: "c \<in> set (nat_digits n) \<Longrightarrow> 48 \<le> c \<and> c \<le> 57"
proof (induction n rule: nat_digits.induct)
  case (1 n)
  show ?case
  proof (cases "n < 10")
    case True
    with "1.prems" show ?thesis by (simp add: nat_digits.simps [of n])
  next
    case False
    with "1.prems" have "c \<in> set (nat_digits (n div 10)) \<or> c = 48 + n mod 10"
      by (auto simp add: nat_digits.simps [of n])
    then show ?thesis
    proof
      assume "c \<in> set (nat_digits (n div 10))"
      with "1.IH" False show ?thesis by simp
    next
      assume "c = 48 + n mod 10"
      moreover have "n mod 10 < 10" by simp
      ultimately show ?thesis by linarith
    qed
  qed
qed

lemma nat_digits_length: "n < 10 ^ k \<Longrightarrow> 0 < k \<Longrightarrow> length (nat_digits n) \<le> k"
proof (induction n arbitrary: k rule: nat_digits.induct)
  case (1 n)
  show ?case
  proof (cases "n < 10")
    case True
    with "1.prems" show ?thesis by (simp add: nat_digits.simps [of n])
  next
    case False
    from "1.prems" obtain j where k: "k = Suc j" by (cases k) auto
    with "1.prems" False have "0 < j" by (cases j) auto
    from "1.prems" k have "n div 10 < 10 ^ j"
      by (simp add: less_mult_imp_div_less mult.commute)
    with "1.IH" [of j] False \<open>0 < j\<close> have "length (nat_digits (n div 10)) \<le> j" by simp
    with False k show ?thesis by (simp add: nat_digits.simps [of n])
  qed
qed

lemma obj_header_ascii: "\<forall>c\<in>set (obj_header obj). c < 128"
  using nat_digits_range [of _ "obj_id obj"] by (fastforce simp: obj_header_def lit_def)

lemma encode_obj_text:
  "encodePdfString (obj_text obj)
     = obj_header obj @ utf8_encode (obj_str obj @ lit ''\<newline>endobj\<newline>'')"
  using utf8_encode_ascii [OF obj_header_ascii] by (simp add: encodePdfString_def obj_text_def)

lemma encode_obj_header: "encodePdfString (obj_header obj) = obj_header obj"
  using utf8_encode_ascii [OF obj_header_ascii, of obj "[]"] by (simp add: encodePdfString_def)

lemma pdf_write_fields:
  "chunks (pdf_write s w) = chunks w @ [encodePdfString s]"
  "offset (pdf_write s w) = offset w + length (encodePdfString s)"
  by (simp_all add: pdf_write_def Let_def)

lemma write_objects_chunks:
  "chunks (fst (write_objects objs st))
     = chunks (fst st) @ map (\<lambda>obj. encodePdfString (obj_text obj)) objs"
  by (induction objs arbitrary: st) (simp_all add: pdf_write_fields)

lemma write_objects_offset:
  "offset (fst (write_objects objs st))
     = offset (fst st) + length (concat (map (\<lambda>obj. encodePdfString (obj_text obj)) objs))"
  by (induction objs arbitrary: st) (simp_all add: pdf_write_fields)

lemma write_objects_positions:
  "snd (write_objects objs st)
     = snd st @ map (\<lambda>k. offset (fst st)
                       + length (concat (map (\<lambda>obj. encodePdfString (obj_text obj)) (take k objs))))
                  [0..<length objs]"
proof (induction objs arbitrary: st)
  case Nil
  show ?case by simp
next
  case (Cons obj objs)
  have "[0..<length (obj # objs)] = 0 # map Suc [0..<length objs]"
    by (simp add: upt_conv_Cons map_Suc_upt del: upt_Suc)
  then show ?case
    by (simp add: Cons.IH pdf_write_fields o_def add.assoc del: upt_Suc)
qed

lemma write_entries_chunks:
  "chunks (write_entries ps w) = chunks w @ map (\<lambda>p. encodePdfString (xref_entry p)) ps"
  by (induction ps arbitrary: w) (simp_all add: pdf_write_fields)

subsection \<open>The buffer, the positions and the start of the cross-reference section\<close>

lemma serialize_bytes:
  "fst (serialize pdf)
     = encodePdfString (lit ''%PDF-1.4\<newline>'')
       @ concat (map (\<lambda>obj. encodePdfString (obj_text obj)) (objects (unshift_roots pdf)))
       @ encodePdfString (xref_head (unshift_roots pdf))
       @ encodePdfString (lit ''0000000000 65535 f \<newline>'')
       @ concat (map (\<lambda>p. encodePdfString (xref_entry p)) (positions pdf))
       @ encodePdfString (trailer_text (unshift_roots pdf) (xrefStart pdf))"
  by (simp add: serialize_def serialize_writer_def Let_def pdf_write_fields write_entries_chunks
      serialize_objects_def write_objects_chunks)

lemma positions_eq:
  "positions pdf
     = map (\<lambda>k. length (encodePdfString (lit ''%PDF-1.4\<newline>''))
                + length (concat (map (\<lambda>obj. encodePdfString (obj_text obj))
                                   (take k (objects (unshift_roots pdf))))))
           [0..<length (objects (unshift_roots pdf))]"
  by (simp add: positions_def serialize_objects_def write_objects_positions pdf_write_fields)

lemma xrefStart_eq:
  "xrefStart pdf
     = length (encodePdfString (lit ''%PDF-1.4\<newline>''))
       + length (concat (map (\<lambda>obj. encodePdfString (obj_text obj)) (objects (unshift_roots pdf))))"
  by (simp add: xrefStart_def serialize_objects_def write_objects_offset pdf_write_fields)

lemma drop_at_position:
  assumes "i < length (objects (unshift_roots pdf))"
  shows "\<exists>rest. drop (positions pdf ! i) (fst (serialize pdf))
           = obj_header (objects (unshift_roots pdf) ! i) @ rest"
proof -
  let ?objs = "objects (unshift_roots pdf)"
  let ?E = "\<lambda>obj. encodePdfString (obj_text obj)"
  let ?h = "encodePdfString (lit ''%PDF-1.4\<newline>'')"
  have pos: "positions pdf ! i = length ?h + length (concat (map ?E (take i ?objs)))"
    using assms by (simp add: positions_eq del: upt_Suc)
  have split: "concat (map ?E ?objs)
                 = concat (map ?E (take i ?objs)) @ ?E (?objs ! i) @ concat (map ?E (drop (Suc i) ?objs))"
  proof -
    have "?objs = take i ?objs @ (?objs ! i) # drop (Suc i) ?objs"
      using assms by (simp add: id_take_nth_drop)
    then have "concat (map ?E ?objs)
                 = concat (map ?E (take i ?objs @ (?objs ! i) # drop (Suc i) ?objs))"
      by simp
    then show ?thesis by simp
  qed
  show ?thesis
    unfolding serialize_bytes pos split
    by (simp add: encode_obj_text)
qed


subsection \<open>Object identifiers of a built document\<close>

lemma addObject_ids:
  assumes "catalogId pdf = 1 \<and> pagesId pdf = 2 \<and> 3 \<le> nextId pdf
           \<and> map obj_id (objects pdf) = [3..<nextId pdf]"
  shows "catalogId (snd (addObject s pdf)) = 1 \<and> pagesId (snd (addObject s pdf)) = 2
         \<and> 3 \<le> nextId (snd (addObject s pdf))
         \<and> map obj_id (objects (snd (addObject s pdf))) = [3..<nextId (snd (addObject s pdf))]"
  using assms by (simp add: addObject_def nextObjectId_def)

lemma addPageWithImage_ids:
  assumes "catalogId pdf = 1 \<and> pagesId pdf = 2 \<and> 3 \<le> nextId pdf
           \<and> map obj_id (objects pdf) = [3..<nextId pdf]"
  shows "catalogId (addPageWithImage i w h pdf) = 1 \<and> pagesId (addPageWithImage i w h pdf) = 2
         \<and> 3 \<le> nextId (addPageWithImage i w h pdf)
         \<and> map obj_id (objects (addPageWithImage i w h pdf))
             = [3..<nextId (addPageWithImage i w h pdf)]"
  using assms by (simp add: addPageWithImage_def addObject_def nextObjectId_def)

lemma apply_op_ids:
  assumes "catalogId pdf = 1 \<and> pagesId pdf = 2 \<and> 3 \<le> nextId pdf
           \<and> map obj_id (objects pdf) = [3..<nextId pdf]"
  shows "catalogId (apply_op pdf op) = 1 \<and> pagesId (apply_op pdf op) = 2
         \<and> 3 \<le> nextId (apply_op pdf op)
         \<and> map obj_id (objects (apply_op pdf op)) = [3..<nextId (apply_op pdf op)]"
proof (cases op)
  case (AddObject s)
  with addObject_ids [OF assms] show ?thesis by simp
next
  case (AddJpegImage b w h)
  with addObject_ids [OF assms] show ?thesis by (simp add: addJpegImage_def Let_def)
next
  case (AddPageWithImage i w h)
  with addPageWithImage_ids [OF assms] show ?thesis by simp
qed

lemma build_ids:
  "catalogId (build ops) = 1 \<and> pagesId (build ops) = 2 \<and> 3 \<le> nextId (build ops)
   \<and> map obj_id (objects (build ops)) = [3..<nextId (build ops)]"
proof (induction ops rule: rev_induct)
  case Nil
  show ?case by (simp add: build_def MinimalPdf_new_def nextObjectId_def)
next
  case (snoc op ops)
  have "build (ops @ [op]) = apply_op (build ops) op" by (simp add: build_def)
  with apply_op_ids [OF snoc] show ?case by simp
qed

lemma built_object_ids:
  assumes "i < length (objects (unshift_roots (build ops)))"
  shows "obj_id (objects (unshift_roots (build ops)) ! i) = i + 1"
proof -
  let ?n = "nextId (build ops)"
  have "map obj_id (objects (unshift_roots (build ops))) = 1 # 2 # [3..<?n]"
    using build_ids [of ops] by (simp add: unshift_roots_def)
  also have "\<dots> = [1..<?n]"
  proof -
    have n: "3 \<le> ?n" using build_ids [of ops] by simp
    have "[1..<?n] = 1 # [Suc 1..<?n]" using n by (intro upt_conv_Cons) simp
    moreover have "[Suc 1..<?n] = Suc 1 # [Suc (Suc 1)..<?n]" using n by (intro upt_conv_Cons) simp
    ultimately show ?thesis by (simp add: eval_nat_numeral)
  qed
  finally have ids: "map obj_id (objects (unshift_roots (build ops))) = [1..<?n]" .
  from ids have len: "length (objects (unshift_roots (build ops))) = ?n - 1"
    by (metis length_map length_upt)
  have "obj_id (objects (unshift_roots (build ops)) ! i)
          = map obj_id (objects (unshift_roots (build ops))) ! i"
    using assms by simp
  also have "\<dots> = [1..<?n] ! i" by (simp only: ids)
  also have "\<dots> = i + 1" using assms len by simp
  finally show ?thesis .
qed

lemma padStart10_length: "p < 10 ^ 10 \<Longrightarrow> length (padStart10 (nat_digits p)) = 10"
  using nat_digits_length [of p 10] by (simp add: padStart10_def)




subsection \<open>The cross-reference offsets\<close>

text \<open>
  C8, as amended. For a document built by the constructor and any sequence of
  \<open>addObject\<close>, \<open>addJpegImage\<close> and \<open>addPageWithImage\<close> calls and serialized
  once: one position is recorded for each object; the objects are written in ascending
  order of their identifiers, 1, 2, 3 and so on; the position recorded for an object,
  taken as an index into the buffer, is where the bytes of its header
  \<open><id> 0 obj\<close> and a line feed begin, positions being counted in encoded bytes; from
  the recorded start, the cross-reference section is its head line, the free entry of
  object 0, one entry for each position in the same order, each the position padded with
  zeros to ten digits (for positions below \<open>10^10\<close>) and the suffix \<open>00000 n\<close>, and
  then the trailer.
\<close>

theorem xref_offsets_locate_objects:
  "let pdf = build ops; out = fst (serialize pdf); objs = objects (snd (serialize pdf)) in
     length (positions pdf) = length objs
     \<and> (\<forall>i<length objs.
           obj_id (objs ! i) = i + 1
           \<and> take (length (nat_digits (i + 1) @ lit '' 0 obj\<newline>'')) (drop (positions pdf ! i) out)
               = encodePdfString (nat_digits (i + 1) @ lit '' 0 obj\<newline>'')
           \<and> (positions pdf ! i < 10 ^ 10 \<longrightarrow>
                length (padStart10 (nat_digits (positions pdf ! i))) = 10))
     \<and> drop (xrefStart pdf) out
         = encodePdfString (lit ''xref\<newline>0 '' @ nat_digits (length objs + 1) @ lit ''\<newline>'')
           @ encodePdfString (lit ''0000000000 65535 f \<newline>'')
           @ concat (map (\<lambda>p. encodePdfString (padStart10 (nat_digits p) @ lit '' 00000 n \<newline>''))
                       (positions pdf))
           @ encodePdfString (trailer_text (snd (serialize pdf)) (xrefStart pdf))"
proof -
  let ?pdf = "build ops"
  let ?objs = "objects (unshift_roots ?pdf)"
  have objs: "objects (snd (serialize ?pdf)) = ?objs" and snd: "snd (serialize ?pdf) = unshift_roots ?pdf"
    by (simp_all add: serialize_def)
  have len: "length (positions ?pdf) = length ?objs"
    by (simp add: positions_eq)
  have at: "obj_id (?objs ! i) = i + 1
            \<and> take (length (nat_digits (i + 1) @ lit '' 0 obj\<newline>''))
                 (drop (positions ?pdf ! i) (fst (serialize ?pdf)))
               = encodePdfString (nat_digits (i + 1) @ lit '' 0 obj\<newline>'')
            \<and> (positions ?pdf ! i < 10 ^ 10 \<longrightarrow>
                 length (padStart10 (nat_digits (positions ?pdf ! i))) = 10)"
    if "i < length ?objs" for i
  proof -
    have id: "obj_id (?objs ! i) = i + 1" using that by (rule built_object_ids)
    then have hdr: "obj_header (?objs ! i) = nat_digits (i + 1) @ lit '' 0 obj\<newline>''"
      by (simp add: obj_header_def)
    from drop_at_position [OF that] obtain rest where
      "drop (positions ?pdf ! i) (fst (serialize ?pdf)) = obj_header (?objs ! i) @ rest" ..
    then have "take (length (obj_header (?objs ! i))) (drop (positions ?pdf ! i) (fst (serialize ?pdf)))
                 = obj_header (?objs ! i)"
      by simp
    with hdr encode_obj_header [of "?objs ! i"] id show ?thesis
      by (simp add: padStart10_length)
  qed
  have xref: "drop (xrefStart ?pdf) (fst (serialize ?pdf))
         = encodePdfString (xref_head (unshift_roots ?pdf))
           @ encodePdfString (lit ''0000000000 65535 f \<newline>'')
           @ concat (map (\<lambda>p. encodePdfString (xref_entry p)) (positions ?pdf))
           @ encodePdfString (trailer_text (unshift_roots ?pdf) (xrefStart ?pdf))"
    unfolding serialize_bytes xrefStart_eq by simp
  show ?thesis
    unfolding Let_def objs snd
    using len at xref by (simp add: xref_head_def xref_entry_def)
qed

text \<open>
  C8, an instance: a document with an object holding the two-byte character U+00E9
  before a second object. The fourth position, 130, counts that character as two bytes,
  and the header of object 4 begins there.
\<close>

theorem xref_offsets_locate_objects_witness:
  "positions (build [AddObject [233], AddObject (lit ''x'')]) = [9, 58, 112, 130]
   \<and> obj_id (objects (snd (serialize (build [AddObject [233], AddObject (lit ''x'')]))) ! 3) = 4
   \<and> take 8 (drop 130 (fst (serialize (build [AddObject [233], AddObject (lit ''x'')]))))
       = encodePdfString (lit ''4 0 obj\<newline>'')"
proof -
  let ?ops = "[AddObject [233], AddObject (lit ''x'')]"
  have pos: "positions (build ?ops) = [9, 58, 112, 130]"
    by (simp add: pdf_eval build_eval)
  have len: "3 < length (objects (snd (serialize (build ?ops))))"
    by (simp add: pdf_eval build_eval)
  have d: "nat_digits (3 + 1) @ lit '' 0 obj\<newline>'' = lit ''4 0 obj\<newline>''"
    by (simp add: nat_digits.simps lit_def)
  from xref_offsets_locate_objects [of ?ops] len
  have "obj_id (objects (snd (serialize (build ?ops))) ! 3) = 3 + 1
        \<and> take (length (nat_digits (3 + 1) @ lit '' 0 obj\<newline>''))
             (drop (positions (build ?ops) ! 3) (fst (serialize (build ?ops))))
           = encodePdfString (nat_digits (3 + 1) @ lit '' 0 obj\<newline>'')"
    unfolding Let_def by blast
  then have "obj_id (objects (snd (serialize (build ?ops))) ! 3) = 4
        \<and> take (length (lit '' 0 obj\<newline>'') + 1)
             (drop 130 (fst (serialize (build ?ops))))
           = encodePdfString (lit ''4 0 obj\<newline>'')"
    unfolding d pos by (simp add: lit_def)
  moreover have "length (lit '' 0 obj\<newline>'') + 1 = 8" by (simp add: lit_def)
  ultimately show ?thesis using pos by simp
qed

text \<open>
  C8, as stated, fails on the text of the header: at the position recorded for object 1
  of the empty document the buffer reads \<open>1 0 obj\<close>, the identifier followed by the
  generation number 0, and not \<open>1 obj\<close>.
\<close>

theorem xref_offset_text_has_generation_number:
  "positions MinimalPdf_new = [9, 58]
   \<and> take 7 (drop 9 (fst (serialize MinimalPdf_new))) = encodePdfString (lit ''1 0 obj'')
   \<and> take 5 (drop 9 (fst (serialize MinimalPdf_new))) \<noteq> encodePdfString (lit ''1 obj'')"
  by (simp add: pdf_eval)

subsection \<open>A document without pages\<close>




subsection \<open>Page geometry and image size\<close>



section \<open>Results about stitchImages\<close>









section \<open>Results about the capture loop\<close>

lemma requested_append: "requested (a @ b) = requested a @ requested b"
  by (induction a rule: requested.induct) simp_all

text \<open>
  C3 (the example with a viewport of 800 and a page of 1801 units). The loop runs while
  \<open>currentY \<le> 1002\<close>: after the tiles at 0 and 800 the offset is 1600 and the loop
  ends. Two requests are made, and after the second reply no run is suspended. The
  stitched raster is 1801 rows high; the tile at 800, the last one, is copied in full,
  800 rows and not 201; the rows from 1600 on keep the white fill.
\<close>

theorem capture_1801_by_800_requests_two_tiles:
  "requested (sent (run env1801 (idle 0 0)
       [Message StartCapture, Reply (Tile tile800), Reply (Tile tile800)])) = [0, 800]
   \<and> pending (run env1801 (idle 0 0)
       [Message StartCapture, Reply (Tile tile800), Reply (Tile tile800)]) = None
   \<and> stitchImages [\<lparr>slice_y = 0, slice_url = tile800\<rparr>, \<lparr>slice_y = 800, slice_url = tile800\<rparr>]
         1 1280 1801
       = Inr \<lparr>s_image = \<lparr>c_width = 1280, c_height = 1801,
                          c_draws = [tile_draw 0 image800 0 800, tile_draw 1 image800 800 800]\<rparr>,
              pixelWidth = 1280, pixelHeight = 1801\<rparr>
   \<and> canvas_row \<lparr>c_width = 1280, c_height = 1801,
                  c_draws = [tile_draw 0 image800 0 800, tile_draw 1 image800 800 800]\<rparr> 1600
       = Some White"
  by (simp add: script_defs stitch_defs example_defs round_eval requested_append
      renderPdfFromImage_def createPdfFromCanvas_def canvas_row_def paint_def covers_def)

text \<open>
  What the rest of the listener leaves alone, and the scroll position after
  \<open>captureFullPage\<close> returns, by the end of the loop or by an empty reply: the one the
  run began with.
\<close>

lemma after_capture_fields:
  "isRunning (after_capture e m s st) = isRunning st"
  "pending (after_capture e m s st) = pending st"
  "scrollX (after_capture e m s st) = scrollX st"
  "scrollY (after_capture e m s st) = scrollY st"
  by (simp_all add: after_capture_def Let_def split: sum.splits)

lemma scroll_restored_on_return:
  "scrollX (captureFullPage_return e fr st) = f_originalScrollX fr
   \<and> scrollY (captureFullPage_return e fr st) = f_originalScrollY fr"
  by (simp add: captureFullPage_return_def finally_block_def after_capture_fields scrollTo_def)

text \<open>
  C5 (restoring the scroll position). The restoring call follows the loop and is not in
  a cleanup block: when the capture request is rejected, \<open>await\<close> throws inside the
  loop and the call is skipped. A run started with the window at vertical position 500,
  whose first request is rejected, ends with the window at position 0.
\<close>

theorem scroll_not_restored_after_rejection:
  "run env1801 (idle 0 500) [Message StartCapture, Reply Rejected]
     = \<lparr>isRunning = False, scrollX = 0, scrollY = 0, pending = None,
        sent = [CaptureViewport 0]\<rparr>"
  by (simp add: script_defs example_defs)






section \<open>Results about the guard of the listener\<close>





end
